theory Spec2Isabelle
  imports Main "HOL-Library.Sublist"
begin

section \<open>The certificate readers of internal/certificate.go\<close>

text \<open>
  The file reads X.509 certificates out of PEM files, YAML documents (through the
  external \<^verbatim>\<open>yq\<close> program) and Kubernetes secrets. Byte slices and Go strings are
  both \<^typ>\<open>string\<close> here (a list of 8-bit characters), so the conversions
  \<^verbatim>\<open>string(b)\<close> and \<^verbatim>\<open>[]byte(s)\<close> are the identity. A nil slice and an empty
  slice are both \<open>[]\<close>.

  A Go \<^verbatim>\<open>error\<close> is modelled by its message, the result of \<^verbatim>\<open>Error()\<close>. A function
  returning \<^verbatim>\<open>(v, error)\<close> with the convention "nil value on error" returns
  \<open>error + 'a\<close>, with \<open>Inl\<close> for the error.
\<close>

type_synonym error = string

abbreviation newline :: char where
  "newline \<equiv> CHR 0x0A"

abbreviation NUL :: char where
  "NUL \<equiv> CHR 0x00"

subsection \<open>Data model\<close>

text \<open>\<^verbatim>\<open>YAMLCertFormat\<close> and \<^verbatim>\<open>certificateFormat\<close> are Go \<^verbatim>\<open>int\<close> types with named
  constants; a value of the type may be any integer, not only a named one.\<close>

type_synonym YAMLCertFormat = int

definition YAMLCertFormatFile :: YAMLCertFormat where
  "YAMLCertFormatFile = 0"

definition YAMLCertFormatBase64 :: YAMLCertFormat where
  "YAMLCertFormatBase64 = 1"

record YAMLCertRef =
  CertMatchExpr :: string
  IDMatchExpr :: string
  Format :: YAMLCertFormat

definition DefaultYamlPaths :: "YAMLCertRef list" where
  "DefaultYamlPaths =
     [\<lparr>CertMatchExpr = ''clusters.[*].cluster.certificate-authority-data'',
       IDMatchExpr = ''clusters.[*].name'', Format = YAMLCertFormatBase64\<rparr>,
      \<lparr>CertMatchExpr = ''clusters.[*].cluster.certificate-authority'',
       IDMatchExpr = ''clusters.[*].name'', Format = YAMLCertFormatFile\<rparr>,
      \<lparr>CertMatchExpr = ''users.[*].user.client-certificate-data'',
       IDMatchExpr = ''users.[*].name'', Format = YAMLCertFormatBase64\<rparr>,
      \<lparr>CertMatchExpr = ''users.[*].user.client-certificate'',
       IDMatchExpr = ''users.[*].name'', Format = YAMLCertFormatFile\<rparr>]"

text \<open>\<^verbatim>\<open>parsedCertificate\<close>; the type \<open>'c\<close> stands for \<^verbatim>\<open>*x509.Certificate\<close>.\<close>

record 'c parsedCertificate =
  cert :: 'c
  userID :: string
  yqMatchExpr :: string

type_synonym certificateFormat = int

definition certificateFormatPEM :: certificateFormat where
  "certificateFormatPEM = 0"

definition certificateFormatYAML :: certificateFormat where
  "certificateFormatYAML = 1"

definition certificateFormatKubeSecret :: certificateFormat where
  "certificateFormatKubeSecret = 2"

text \<open>The part of \<^verbatim>\<open>v1.Secret\<close> that the code reads: \<^verbatim>\<open>GetName()\<close> and the
  \<^verbatim>\<open>Data\<close> map from key to bytes.\<close>

record Secret =
  Name :: string
  Data :: "string \<rightharpoonup> string"

text \<open>\<^verbatim>\<open>certificateRef\<close>; the pointer \<^verbatim>\<open>kubeSecret\<close> may be nil (\<open>None\<close>).\<close>

record 'c certificateRef =
  path :: string
  format :: certificateFormat
  certificates :: "'c parsedCertificate list"
  userIDs :: "string list"
  yamlPaths :: "YAMLCertRef list"
  kubeSecret :: "Secret option"

subsection \<open>What the code calls outside the repository\<close>

text \<open>
  The Go standard library and the \<^verbatim>\<open>yq\<close> process are not part of the repository;
  they are the fields of an environment that every function takes. The file system and
  the document are taken not to change during one call.

  \<^item> \<open>readFile p\<close>: \<^verbatim>\<open>ioutil.ReadFile(p)\<close>.
  \<^item> \<open>yqCombinedOutput f e\<close>: \<^verbatim>\<open>exec.Command("yq", "r", f, e).CombinedOutput()\<close>, the
    bytes written to stdout and stderr and the error, if any.
  \<^item> \<open>yqOutput f e\<close>: \<^verbatim>\<open>exec.Command("yq", "r", f, e).Output()\<close>, the bytes written to
    stdout and the error, if any.
  \<^item> \<open>base64Decode dst src\<close>: \<^verbatim>\<open>base64.StdEncoding.Decode(dst, src)\<close>, giving the
    contents of \<open>dst\<close> after the call, the count \<open>n\<close> and the error, if any.
  \<^item> \<open>pemDecode data\<close>: \<^verbatim>\<open>pem.Decode(data)\<close>; \<open>None\<close> when the block is nil, otherwise
    \<^verbatim>\<open>block.Bytes\<close> and \<^verbatim>\<open>rest\<close>.
  \<^item> \<open>x509ParseCertificate der\<close>: \<^verbatim>\<open>x509.ParseCertificate(der)\<close>.
  \<^item> \<open>pathJoin\<close>, \<open>filepathDir\<close>: \<^verbatim>\<open>path.Join\<close> of two elements and \<^verbatim>\<open>filepath.Dir\<close>.
\<close>

record 'c env =
  readFile :: "string \<Rightarrow> error + string"
  yqCombinedOutput :: "string \<Rightarrow> string \<Rightarrow> string \<times> error option"
  yqOutput :: "string \<Rightarrow> string \<Rightarrow> string \<times> error option"
  base64Decode :: "string \<Rightarrow> string \<Rightarrow> string \<times> nat \<times> error option"
  pemDecode :: "string \<Rightarrow> (string \<times> string) option"
  x509ParseCertificate :: "string \<Rightarrow> error + 'c"
  pathJoin :: "string \<Rightarrow> string \<Rightarrow> string"
  filepathDir :: "string \<Rightarrow> string"

subsection \<open>Small library functions with a fixed meaning\<close>

text \<open>\<^verbatim>\<open>base64.StdEncoding.DecodedLen(n)\<close> for the padded standard encoding.\<close>

definition base64_DecodedLen :: "nat \<Rightarrow> nat" where
  "base64_DecodedLen n = n div 4 * 3"

text \<open>\<^verbatim>\<open>strings.TrimRight(s, cutset)\<close>: drop every trailing character that is in the
  cutset.\<close>

definition strings_TrimRight :: "string \<Rightarrow> string \<Rightarrow> string" where
  "strings_TrimRight s cutset = rev (dropWhile (\<lambda>c. c \<in> set cutset) (rev s))"

text \<open>\<^verbatim>\<open>strings.Split(s, sep)\<close> for a separator of one character: the pieces between
  the separators, so \<open>n\<close> separators give \<open>n + 1\<close> pieces and the empty string gives one
  empty piece.\<close>

fun strings_Split :: "string \<Rightarrow> char \<Rightarrow> string list" where
  "strings_Split [] sep = [[]]"
| "strings_Split (c # cs) sep =
     (if c = sep then [] # strings_Split cs sep
      else (case strings_Split cs sep of
              [] \<Rightarrow> [[c]]
            | w # ws \<Rightarrow> (c # w) # ws))"

text \<open>The verb \<^verbatim>\<open>%d\<close> of \<^verbatim>\<open>fmt\<close> on a length: decimal digits, no sign.\<close>

function show_nat :: "nat \<Rightarrow> string" where
  "show_nat n =
     (if n < 10 then [char_of (48 + n)]
      else show_nat (n div 10) @ [char_of (48 + n mod 10)])"
  by pat_completeness auto
termination
  by (relation "measure id") auto

subsection \<open>parsePEM\<close>

text \<open>
  The loop of \<^verbatim>\<open>parsePEM\<close> runs until \<^verbatim>\<open>pem.Decode\<close> returns a nil block. Nothing in
  the repository bounds it, so the result is an option: \<open>None\<close> is a call that never
  returns a value to its caller.
\<close>

partial_function (option) parsePEM_loop ::
  "'c env \<Rightarrow> 'c list \<Rightarrow> string \<Rightarrow> (error + 'c list) option" where
  "parsePEM_loop env output data =
     (case pemDecode env data of
        None \<Rightarrow> Some (Inr output)
      | Some (block_Bytes, rest) \<Rightarrow>
          (case x509ParseCertificate env block_Bytes of
             Inl err \<Rightarrow> Some (Inl (''tried to parse malformed x509 data, '' @ err))
           | Inr certificate \<Rightarrow> parsePEM_loop env (output @ [certificate]) rest))"

declare parsePEM_loop.simps [code]

definition parsePEM :: "'c env \<Rightarrow> string \<Rightarrow> (error + 'c list) option" where
  "parsePEM env data = parsePEM_loop env [] data"

subsection \<open>readAndParsePEMFile\<close>

definition readAndParsePEMFile ::
  "'c env \<Rightarrow> string \<Rightarrow> (error + 'c parsedCertificate list) option" where
  "readAndParsePEMFile env p =
     (case readFile env p of
        Inl err \<Rightarrow> Some (Inl err)
      | Inr contents \<Rightarrow>
          (case parsePEM env contents of
             None \<Rightarrow> None
           | Some (Inl err) \<Rightarrow> Some (Inl err)
           | Some (Inr certs) \<Rightarrow>
               Some (Inr (foldl (\<lambda>output c.
                 output @ [\<lparr>cert = c, userID = [], yqMatchExpr = []\<rparr>]) [] certs))))"

subsection \<open>readAndParseYAMLFile\<close>

text \<open>Lines 133 to 143 of the loop body: the bytes handed to \<^verbatim>\<open>parsePEM\<close>. The values
  returned by \<^verbatim>\<open>Decode\<close> are dropped by the source, so only the buffer is used. For a
  format that is neither constant, \<^verbatim>\<open>decodedCerts\<close> stays nil.\<close>

definition decodeCerts :: "'c env \<Rightarrow> string \<Rightarrow> YAMLCertFormat \<Rightarrow> string \<Rightarrow> error + string" where
  "decodeCerts env filePath fmt rawCerts =
     (if fmt = YAMLCertFormatBase64 then
        Inr (fst (base64Decode env
                   (replicate (base64_DecodedLen (length rawCerts)) NUL) rawCerts))
      else if fmt = YAMLCertFormatFile then
        (let certPath = pathJoin env (filepathDir env filePath) rawCerts
         in case readFile env (strings_TrimRight certPath [newline]) of
              Inl err \<Rightarrow> Inl err
            | Inr contents \<Rightarrow> Inr contents)
      else Inr [])"

text \<open>Lines 150 to 156: the labels. The error of \<^verbatim>\<open>Output()\<close> is assigned to \<^verbatim>\<open>_\<close>.\<close>

definition extractUserIDs :: "'c env \<Rightarrow> string \<Rightarrow> string \<Rightarrow> string list" where
  "extractUserIDs env filePath idExpr =
     (let rawUserIDs = fst (yqOutput env filePath idExpr)
      in foldl (\<lambda>ids uid. if uid \<noteq> [] then ids @ [uid] else ids)
           [] (strings_Split rawUserIDs newline))"

text \<open>The message of line 158.\<close>

definition labelCountError :: "string \<Rightarrow> nat \<Rightarrow> nat \<Rightarrow> string \<Rightarrow> error" where
  \<open>labelCountError filePath nIDs nCerts idExpr =
     ''failed to parse some labels in '' @ filePath @ '' (got '' @ show_nat nIDs @
     '' IDs but '' @ show_nat nCerts @ '' certs for "'' @ idExpr @ ''")''\<close>

text \<open>Lines 157 to 167: the count check, then one record for each certificate, appended
  to \<open>output\<close>. The list \<open>ids\<close> is \<^verbatim>\<open>userIDs\<close>; the index read \<open>ids ! index\<close> is in range after the
  check.\<close>

definition labelCerts ::
  "string \<Rightarrow> YAMLCertRef \<Rightarrow> 'c parsedCertificate list \<Rightarrow> string list \<Rightarrow> 'c list \<Rightarrow>
   error + 'c parsedCertificate list" where
  "labelCerts filePath exprs output ids certs =
     (if length ids \<noteq> length certs then
        Inl (labelCountError filePath (length ids) (length certs) (IDMatchExpr exprs))
      else
        Inr (foldl (\<lambda>output index.
               output @ [\<lparr>cert = certs ! index, userID = ids ! index,
                          yqMatchExpr = CertMatchExpr exprs\<rparr>])
             output [0..<length certs]))"

text \<open>The loop over \<^verbatim>\<open>yamlPaths\<close>, with \<^verbatim>\<open>output\<close> as accumulator.\<close>

fun yamlLoop ::
  "'c env \<Rightarrow> string \<Rightarrow> 'c parsedCertificate list \<Rightarrow> YAMLCertRef list \<Rightarrow>
   (error + 'c parsedCertificate list) option" where
  "yamlLoop env filePath output [] = Some (Inr output)"
| "yamlLoop env filePath output (exprs # refs) =
     (case yqCombinedOutput env filePath (CertMatchExpr exprs) of
        (rawCerts, Some err) \<Rightarrow> Some (Inl (err @ '' | stderr: '' @ rawCerts))
      | (rawCerts, None) \<Rightarrow>
          if length rawCerts = 0 then yamlLoop env filePath output refs
          else
            (case decodeCerts env filePath (Format exprs) rawCerts of
               Inl err \<Rightarrow> Some (Inl err)
             | Inr decodedCerts \<Rightarrow>
                 (case parsePEM env decodedCerts of
                    None \<Rightarrow> None
                  | Some (Inl err) \<Rightarrow> Some (Inl err)
                  | Some (Inr certs) \<Rightarrow>
                      (case labelCerts filePath exprs output
                              (extractUserIDs env filePath (IDMatchExpr exprs)) certs of
                         Inl err \<Rightarrow> Some (Inl err)
                       | Inr output' \<Rightarrow> yamlLoop env filePath output' refs))))"

definition readAndParseYAMLFile ::
  "'c env \<Rightarrow> string \<Rightarrow> YAMLCertRef list \<Rightarrow> (error + 'c parsedCertificate list) option" where
  "readAndParseYAMLFile env filePath refs = yamlLoop env filePath [] refs"

subsection \<open>readAndParseKubeSecret\<close>

text \<open>The parameter \<^verbatim>\<open>path\<close> is not used by the source. A map lookup of a missing key
  gives the nil slice in Go, which is why the second lookup is total.\<close>

definition readAndParseKubeSecret ::
  "'c env \<Rightarrow> string \<Rightarrow> Secret \<Rightarrow> (error + 'c parsedCertificate list) option" where
  \<open>readAndParseKubeSecret env p secret =
     (let key = ''tls.crt'' in
      if Data secret key = None then
        Some (Inl (''secret "'' @ Name secret @ ''" has no key "'' @ key @ ''"''))
      else
        (case parsePEM env (case Data secret key of None \<Rightarrow> [] | Some bytes \<Rightarrow> bytes) of
           None \<Rightarrow> None
         | Some (Inl err) \<Rightarrow> Some (Inl err)
         | Some (Inr certs) \<Rightarrow>
             Some (Inr (foldl (\<lambda>output c.
               output @ [\<lparr>cert = c, userID = [], yqMatchExpr = []\<rparr>]) [] certs))))\<close>

subsection \<open>certificateRef.parse\<close>

text \<open>
  \<^verbatim>\<open>parse\<close> mutates the receiver and returns the error: the model returns the receiver
  after the call and the error, if any. A reader that fails returns a nil slice, which the
  assignment stores. With the format \<^verbatim>\<open>certificateFormatKubeSecret\<close> and a nil
  \<^verbatim>\<open>kubeSecret\<close> the read of \<^verbatim>\<open>secret.Data\<close> panics, so the call returns nothing.
\<close>

definition storeResult ::
  "'c certificateRef \<Rightarrow> (error + 'c parsedCertificate list) option \<Rightarrow>
   ('c certificateRef \<times> error option) option" where
  "storeResult c r =
     (case r of
        None \<Rightarrow> None
      | Some (Inl err) \<Rightarrow> Some (c\<lparr>certificates := []\<rparr>, Some err)
      | Some (Inr certs) \<Rightarrow> Some (c\<lparr>certificates := certs\<rparr>, None))"

definition parse :: "'c env \<Rightarrow> 'c certificateRef \<Rightarrow> ('c certificateRef \<times> error option) option" where
  "parse env c =
     (if format c = certificateFormatPEM then
        storeResult c (readAndParsePEMFile env (path c))
      else if format c = certificateFormatYAML then
        storeResult c (readAndParseYAMLFile env (path c) (yamlPaths c))
      else if format c = certificateFormatKubeSecret then
        (case kubeSecret c of
           None \<Rightarrow> None
         | Some secret \<Rightarrow> storeResult c (readAndParseKubeSecret env (path c) secret))
      else Some (c, None))"

subsection \<open>Notions used to state the properties\<close>

text \<open>The blocks that repeated decoding finds in a buffer: the payload of the first
  block, and every block found in what the decoder leaves after it.\<close>

inductive located :: "'c env \<Rightarrow> string \<Rightarrow> string \<Rightarrow> bool" for env :: "'c env" where
  first: "pemDecode env data = Some (der, rest) \<Longrightarrow> located env data der"
| later: "pemDecode env data = Some (der', rest) \<Longrightarrow> located env rest der \<Longrightarrow>
          located env data der"

text \<open>A text is a well-formed PEM block of the certificate \<open>c\<close> when the decoder,
  wherever the text heads a buffer, finds a block there, leaves exactly what follows the
  text, and the payload parses as \<open>c\<close>.\<close>

definition pem_cert_block :: "'c env \<Rightarrow> string \<Rightarrow> 'c \<Rightarrow> bool" where
  "pem_cert_block env text c \<longleftrightarrow>
     (\<forall>rest. \<exists>der. pemDecode env (text @ rest) = Some (der, rest) \<and>
                   x509ParseCertificate env der = Inr c)"

text \<open>Bytes are left out by the decoder when putting them in front of a buffer does not
  change what it finds.\<close>

definition pem_skipped :: "'c env \<Rightarrow> string \<Rightarrow> bool" where
  "pem_skipped env junk \<longleftrightarrow> (\<forall>rest. pemDecode env (junk @ rest) = pemDecode env rest)"

subsection \<open>An example environment\<close>

text \<open>
  The theorems below hold for every environment. To apply them to concrete inputs, this
  environment stands for a directory \<^verbatim>\<open>/k\<close> with a few documents. Its PEM armour is
  \<^verbatim>\<open><\<close> payload \<^verbatim>\<open>>\<close>, a certificate is its payload, a payload that is empty or contains
  \<^verbatim>\<open>?\<close> does not parse, and the base64 decoder knows the two texts \<^verbatim>\<open>PENBPg==\<close>
  (\<^verbatim>\<open><CA>\<close>) and \<^verbatim>\<open>Zm9v\<close> (\<^verbatim>\<open>foo\<close>), each followed by a newline.

  \<^item> \<^verbatim>\<open>/k/config\<close>: the cluster \<^verbatim>\<open>prod\<close> with inline CA data, the user \<^verbatim>\<open>alice\<close> with a
    client certificate in the file \<^verbatim>\<open>alice.crt\<close>.
  \<^item> \<^verbatim>\<open>/k/two\<close>: the clusters \<^verbatim>\<open>prod\<close> and \<^verbatim>\<open>staging\<close>, inline CA data for one of them.
  \<^item> \<^verbatim>\<open>/k/noid\<close>: inline CA data that decodes to \<^verbatim>\<open>foo\<close>; every query for labels
    fails.
  \<^item> \<^verbatim>\<open>/k/garbled\<close>: inline CA data \<^verbatim>\<open>!!!!\<close>, which is not base64; no cluster name.
  \<^item> \<^verbatim>\<open>/k/dangling\<close>: the user \<^verbatim>\<open>alice\<close> with a client certificate in the missing file
    \<^verbatim>\<open>gone.crt\<close>.
  \<^item> any other document does not exist, and \<^verbatim>\<open>yq\<close> fails on it.
\<close>

definition demo_pem_decode :: "string \<Rightarrow> (string \<times> string) option" where
  "demo_pem_decode data =
     (case dropWhile (\<lambda>c. c \<noteq> CHR ''<'') data of
        [] \<Rightarrow> None
      | _ # body \<Rightarrow>
          (case dropWhile (\<lambda>c. c \<noteq> CHR ''>'') body of
             [] \<Rightarrow> None
           | _ # rest \<Rightarrow> Some (takeWhile (\<lambda>c. c \<noteq> CHR ''>'') body, rest)))"

definition demo_x509_parse :: "string \<Rightarrow> error + string" where
  "demo_x509_parse der =
     (if der = [] \<or> CHR ''?'' \<in> set der then Inl ''x509: malformed certificate''
      else Inr der)"

definition demo_readFile :: "string \<Rightarrow> error + string" where
  "demo_readFile p =
     (if p = ''/k/alice.crt'' then Inr ''<ALICE>\<newline>''
      else if p = ''/k/bundle.pem'' then Inr ''<ROOT>\<newline><LEAF>\<newline>''
      else Inl (''open '' @ p @ '': no such file or directory''))"

definition demo_yq :: "string \<Rightarrow> string \<Rightarrow> string \<times> error option" where
  "demo_yq f e =
     (if f = ''/k/config'' \<or> f = ''/k/two'' \<or> f = ''/k/noid'' \<or> f = ''/k/garbled'' \<or> f = ''/k/dangling'' then
        (if e = ''clusters.[*].cluster.certificate-authority-data'' then
           (if f = ''/k/garbled'' then (''!!!!\<newline>'', None)
            else if f = ''/k/noid'' then (''Zm9v\<newline>'', None)
            else if f = ''/k/dangling'' then ([], None)
            else (''PENBPg==\<newline>'', None))
         else if e = ''users.[*].user.client-certificate'' then
           (if f = ''/k/config'' then (''alice.crt\<newline>'', None)
            else if f = ''/k/dangling'' then (''gone.crt\<newline>'', None)
            else ([], None))
         else ([], None))
      else (''Error: open '' @ f @ '': no such file or directory\<newline>'', Some ''exit status 1''))"

definition demo_yq_stdout :: "string \<Rightarrow> string \<Rightarrow> string \<times> error option" where
  "demo_yq_stdout f e =
     (if f = ''/k/noid'' then ([], Some ''exit status 1'')
      else if e = ''clusters.[*].name'' then
        (if f = ''/k/two'' then (''prod\<newline>staging\<newline>'', None)
         else if f = ''/k/garbled'' then ([], None)
         else (''prod\<newline>'', None))
      else if e = ''users.[*].name'' then (''alice\<newline>'', None)
      else ([], None))"

definition demo_base64 :: "string \<Rightarrow> string \<Rightarrow> string \<times> nat \<times> error option" where
  "demo_base64 dst src =
     (if src = ''PENBPg==\<newline>'' then (''<CA>'' @ drop 4 dst, 4, None)
      else if src = ''Zm9v\<newline>'' then (''foo'' @ drop 3 dst, 3, None)
      else (dst, 0, Some ''illegal base64 data at input byte 0''))"

definition demo_env :: "string env" where
  "demo_env =
     \<lparr>readFile = demo_readFile, yqCombinedOutput = demo_yq, yqOutput = demo_yq_stdout,
      base64Decode = demo_base64, pemDecode = demo_pem_decode,
      x509ParseCertificate = demo_x509_parse,
      pathJoin = (\<lambda>dir elem. dir @ ''/'' @ elem),
      filepathDir = (\<lambda>p. ''/k'')\<rparr>"

section \<open>Properties\<close>

subsection \<open>The PEM decoder\<close>

lemma parsePEM_loop_none:
  "pemDecode env data = None \<Longrightarrow> parsePEM_loop env out data = Some (Inr out)"
  by (subst parsePEM_loop.simps) simp

lemma parsePEM_loop_bad:
  "pemDecode env data = Some (der, rest) \<Longrightarrow> x509ParseCertificate env der = Inl err \<Longrightarrow>
   parsePEM_loop env out data = Some (Inl (''tried to parse malformed x509 data, '' @ err))"
  by (subst parsePEM_loop.simps) simp

lemma parsePEM_loop_good:
  "pemDecode env data = Some (der, rest) \<Longrightarrow> x509ParseCertificate env der = Inr c \<Longrightarrow>
   parsePEM_loop env out data = parsePEM_loop env (out @ [c]) rest"
  by (subst parsePEM_loop.simps) simp

lemma parsePEM_loop_located_bad:
  assumes "located env data der" and "x509ParseCertificate env der = Inl err"
  shows "\<exists>err'. parsePEM_loop env out data =
           Some (Inl (''tried to parse malformed x509 data, '' @ err'))"
  using assms
proof (induction arbitrary: out rule: located.induct)
  case (first data der rest)
  then show ?case by (blast intro: parsePEM_loop_bad)
next
  case (later data der' rest der)
  show ?case
  proof (cases "x509ParseCertificate env der'")
    case (Inl e)
    with later.hyps(1) show ?thesis by (blast intro: parsePEM_loop_bad)
  next
    case (Inr c)
    with later.hyps(1) have "parsePEM_loop env out data = parsePEM_loop env (out @ [c]) rest"
      by (rule parsePEM_loop_good)
    with later.IH [OF later.prems] show ?thesis by simp
  qed
qed

lemma parsePEM_loop_segments:
  assumes "\<forall>(blk, c) \<in> set segs. \<forall>rest. \<exists>der.
             pemDecode env (blk @ rest) = Some (der, rest) \<and>
             x509ParseCertificate env der = Inr c"
    and "pemDecode env trailing = None"
  shows "parsePEM_loop env out (concat (map fst segs) @ trailing) =
           Some (Inr (out @ map snd segs))"
  using assms(1)
proof (induction segs arbitrary: out)
  case Nil
  show ?case using assms(2) by (simp add: parsePEM_loop_none)
next
  case (Cons seg segs)
  obtain blk c where seg: "seg = (blk, c)" by (cases seg)
  let ?rest = "concat (map fst segs) @ trailing"
  from Cons.prems seg have "\<forall>rest. \<exists>der.
      pemDecode env (blk @ rest) = Some (der, rest) \<and> x509ParseCertificate env der = Inr c"
    by simp
  then obtain der where
    d: "pemDecode env (blk @ ?rest) = Some (der, ?rest)" and
    p: "x509ParseCertificate env der = Inr c"
    by blast
  have "parsePEM_loop env out (blk @ ?rest) = parsePEM_loop env (out @ [c]) ?rest"
    using d p by (rule parsePEM_loop_good)
  also have "\<dots> = Some (Inr ((out @ [c]) @ map snd segs))"
    using Cons.prems by (intro Cons.IH) simp
  finally show ?case by (simp add: seg)
qed

text \<open>
  Claim C2. Whenever a block that repeated decoding finds in the buffer has a payload
  that \<^verbatim>\<open>x509.ParseCertificate\<close> rejects, \<^verbatim>\<open>parsePEM\<close> returns, and what it returns is an
  error whose message starts with "tried to parse malformed x509 data". The result is
  the error alone: the certificates decoded before the bad block are not part of it.
\<close>

theorem malformed_block_is_fatal:
  assumes "located env data der" and "x509ParseCertificate env der = Inl err"
  shows "\<exists>err'. parsePEM env data =
           Some (Inl (''tried to parse malformed x509 data, '' @ err'))"
  unfolding parsePEM_def using assms by (rule parsePEM_loop_located_bad)

theorem malformed_block_is_fatal_witness:
  "located demo_env ''<ROOT><LE?F>'' ''LE?F'' \<and>
   x509ParseCertificate demo_env ''LE?F'' = Inl ''x509: malformed certificate'' \<and>
   (\<exists>err'. parsePEM demo_env ''<ROOT><LE?F>'' =
      Some (Inl (''tried to parse malformed x509 data, '' @ err')))"
proof -
  have d1: "pemDecode demo_env ''<ROOT><LE?F>'' = Some (''ROOT'', ''<LE?F>'')"
    by (simp add: demo_env_def demo_pem_decode_def)
  have d2: "pemDecode demo_env ''<LE?F>'' = Some (''LE?F'', [])"
    by (simp add: demo_env_def demo_pem_decode_def)
  have l: "located demo_env ''<ROOT><LE?F>'' ''LE?F''"
    by (rule located.later [OF d1 located.first [OF d2]])
  have p: "x509ParseCertificate demo_env ''LE?F'' = Inl ''x509: malformed certificate''"
    by (simp add: demo_env_def demo_x509_parse_def)
  from l p malformed_block_is_fatal [OF l p] show ?thesis by blast
qed

text \<open>
  Claim C3. A buffer that is the concatenation of K well-formed PEM certificate blocks
  (with a decoder that finds no block in the empty buffer) makes \<^verbatim>\<open>parsePEM\<close> return
  the K certificates, in the order of the blocks, and no error. A buffer in which the
  decoder finds no block gives the empty list and no error.
\<close>

theorem concatenated_blocks_decode_in_order:
  "(list_all2 (pem_cert_block env) blocks certs \<and> pemDecode env [] = None \<longrightarrow>
      parsePEM env (concat blocks) = Some (Inr certs) \<and> length certs = length blocks) \<and>
   (pemDecode env data = None \<longrightarrow> parsePEM env data = Some (Inr []))"
proof (intro conjI impI)
  assume a: "list_all2 (pem_cert_block env) blocks certs \<and> pemDecode env [] = None"
  then have len: "length blocks = length certs" by (auto dest: list_all2_lengthD)
  have "\<forall>(blk, c) \<in> set (zip blocks certs). \<forall>rest. \<exists>der.
             pemDecode env (blk @ rest) = Some (der, rest) \<and>
             x509ParseCertificate env der = Inr c"
    using a by (auto simp: list_all2_iff pem_cert_block_def)
  from parsePEM_loop_segments [OF this, of "[]" "[]"] a len
  show "parsePEM env (concat blocks) = Some (Inr certs)"
    by (simp add: parsePEM_def)
  from len show "length certs = length blocks" by simp
next
  assume "pemDecode env data = None"
  then show "parsePEM env data = Some (Inr [])"
    by (simp add: parsePEM_def parsePEM_loop_none)
qed

theorem concatenated_blocks_decode_in_order_witness:
  "list_all2 (pem_cert_block demo_env) [''<ROOT>'', ''<MID>'', ''<LEAF>''] [''ROOT'', ''MID'', ''LEAF''] \<and>
   pemDecode demo_env [] = None \<and>
   parsePEM demo_env ''<ROOT><MID><LEAF>'' = Some (Inr [''ROOT'', ''MID'', ''LEAF'']) \<and>
   pemDecode demo_env ''no armour here'' = None \<and>
   parsePEM demo_env ''no armour here'' = Some (Inr [])"
proof -
  have b: "list_all2 (pem_cert_block demo_env) [''<ROOT>'', ''<MID>'', ''<LEAF>''] [''ROOT'', ''MID'', ''LEAF'']"
    by (simp add: pem_cert_block_def demo_env_def demo_pem_decode_def demo_x509_parse_def)
  have e: "pemDecode demo_env [] = None"
    by (simp add: demo_env_def demo_pem_decode_def)
  have n: "pemDecode demo_env ''no armour here'' = None"
    by (simp add: demo_env_def demo_pem_decode_def)
  from b e n
    concatenated_blocks_decode_in_order [of demo_env "[''<ROOT>'', ''<MID>'', ''<LEAF>'']"
      "[''ROOT'', ''MID'', ''LEAF'']" "''no armour here''"]
  show ?thesis by simp
qed

text \<open>
  Claim C10. Bytes that the decoder leaves out in front of a block (before the first
  block or between two blocks), and trailing bytes in which the decoder finds no block
  (NUL padding among them), do not change the result of \<^verbatim>\<open>parsePEM\<close>: it returns the
  certificates of the blocks, in order, and no error.
\<close>

theorem bytes_outside_blocks_are_ignored:
  assumes "\<forall>(junk, block, c) \<in> set segs. pem_skipped env junk \<and> pem_cert_block env block c"
    and "pemDecode env trailing = None"
  shows "parsePEM env (concat (map (\<lambda>(junk, block, c). junk @ block) segs) @ trailing) =
           Some (Inr (map (\<lambda>(junk, block, c). c) segs))"
proof -
  let ?segs = "map (\<lambda>(junk, block, c). (junk @ block, c)) segs"
  have "\<forall>(blk, c) \<in> set ?segs. \<forall>rest. \<exists>der.
             pemDecode env (blk @ rest) = Some (der, rest) \<and>
             x509ParseCertificate env der = Inr c"
    using assms(1) by (fastforce simp: pem_skipped_def pem_cert_block_def)
  from parsePEM_loop_segments [OF this assms(2), of "[]"]
  show ?thesis
    by (simp add: parsePEM_def comp_def case_prod_unfold)
qed

theorem bytes_outside_blocks_are_ignored_witness:
  "pem_skipped demo_env ''# root'' \<and> pem_cert_block demo_env ''<ROOT>'' ''ROOT'' \<and>
   pem_skipped demo_env ''\<newline># leaf\<newline>'' \<and> pem_cert_block demo_env ''<LEAF>'' ''LEAF'' \<and>
   pemDecode demo_env [newline, NUL, NUL] = None \<and>
   parsePEM demo_env (''# root<ROOT>\<newline># leaf\<newline><LEAF>'' @ [newline, NUL, NUL]) =
     Some (Inr [''ROOT'', ''LEAF''])"
proof -
  have s1: "pem_skipped demo_env ''# root'' \<and> pem_cert_block demo_env ''<ROOT>'' ''ROOT''"
    by (simp add: pem_skipped_def pem_cert_block_def demo_env_def demo_pem_decode_def
          demo_x509_parse_def)
  have s2: "pem_skipped demo_env ''\<newline># leaf\<newline>'' \<and> pem_cert_block demo_env ''<LEAF>'' ''LEAF''"
    by (simp add: pem_skipped_def pem_cert_block_def demo_env_def demo_pem_decode_def
          demo_x509_parse_def)
  have s: "\<forall>(junk, block, c) \<in> set [(''# root'', ''<ROOT>'', ''ROOT''),
                                      (''\<newline># leaf\<newline>'', ''<LEAF>'', ''LEAF'')].
      pem_skipped demo_env junk \<and> pem_cert_block demo_env block c"
    using s1 s2 by simp
  have t: "pemDecode demo_env [newline, NUL, NUL] = None"
    by (simp add: demo_env_def demo_pem_decode_def)
  from s1 s2 t bytes_outside_blocks_are_ignored [OF s t] show ?thesis by simp
qed

end
